theory Spec2Isabelle
  imports Main "HOL-Library.Sublist"
begin

section \<open>Workflow tool handlers of the n8n builder\<close>

text \<open>
  A shallow embedding of \<^verbatim>\<open>src/tool-handlers/workflow-tools.ts\<close>: the two helpers
  \<^verbatim>\<open>handle_validation_error\<close> and \<^verbatim>\<open>format_output\<close>, and the seven handlers.

  The handlers are asynchronous and talk to collaborators that are imported from other
  modules: the API client, the node validator, the two Zod schemas, the configuration
  and the composition guide. Each collaborator is a parameter of the model. A handler
  calls every method of the API client at most once, so the client is a record with
  one answer per method and argument; an answer is \<open>Inl error\<close> when the awaited
  promise rejects and \<open>Inr value\<close> when it resolves. A handler returns the list of
  the API client calls it made, in order, together with its outcome: \<open>Inl fault\<close>
  when it throws, \<open>Inr response\<close> when it returns.

  Scope of the model of JavaScript values. Strings are byte strings. A thrown value is
  an error object or a primitive other than \<^verbatim>\<open>null\<close> and \<^verbatim>\<open>undefined\<close>, so reading
  \<^verbatim>\<open>.name\<close> and \<^verbatim>\<open>.message\<close> of it does not fail, and both are strings when they are
  there. The argument object is an object; its \<^verbatim>\<open>id\<close> and \<^verbatim>\<open>verbosity\<close> are strings when
  they are there, its \<^verbatim>\<open>workflow\<close> is an object when it is there. Workflows that the
  API client returns have the fields the handlers read.
\<close>

subsection \<open>Strings of the runtime\<close>

text \<open>\<^verbatim>\<open>String.prototype.includes\<close>: the argument occurs as a contiguous substring.\<close>

fun str_includes :: "string \<Rightarrow> string \<Rightarrow> bool" where
  "str_includes [] sub = (sub = [])"
| "str_includes (c # cs) sub = (prefix sub (c # cs) \<or> str_includes cs sub)"

text \<open>\<^verbatim>\<open>String.prototype.toLowerCase\<close> on the letters A to Z; every other byte is kept.\<close>

definition to_lower_char :: "char \<Rightarrow> char" where
  "to_lower_char c =
     (case map_of (zip ''ABCDEFGHIJKLMNOPQRSTUVWXYZ'' ''abcdefghijklmnopqrstuvwxyz'') c of
        Some l \<Rightarrow> l
      | None \<Rightarrow> c)"

definition toLowerCase :: "string \<Rightarrow> string" where
  "toLowerCase s = map to_lower_char s"

text \<open>\<^verbatim>\<open>Array.prototype.join\<close>.\<close>

fun join :: "string \<Rightarrow> string list \<Rightarrow> string" where
  "join sep [] = []"
| "join sep [x] = x"
| "join sep (x # y # ys) = x @ sep @ join sep (y # ys)"

text \<open>A length or a count, as a template literal prints it: decimal digits.\<close>

fun string_of_nat :: "nat \<Rightarrow> string" where
  "string_of_nat n =
     (if n < 10 then [''0123456789'' ! n]
      else string_of_nat (n div 10) @ [''0123456789'' ! (n mod 10)])"

text \<open>Reading decimal digits back: what a printed number says.\<close>

definition digit_value :: "char \<Rightarrow> nat" where
  "digit_value c =
     (case map_of (zip ''0123456789'' [0 ..< 10]) c of Some d \<Rightarrow> d | None \<Rightarrow> 0)"

definition nat_of_string :: "string \<Rightarrow> nat" where
  "nat_of_string s = foldl (\<lambda>a c. 10 * a + digit_value c) 0 s"

text \<open>The character \<^verbatim>\<open>'\<close>, where a literal would begin or end with it.\<close>

definition apostrophe :: string where
  "apostrophe = [CHR 0x27]"

text \<open>Truthiness of an optional string: \<^verbatim>\<open>undefined\<close> and \<^verbatim>\<open>""\<close> are falsy.\<close>

fun truthy :: "string option \<Rightarrow> bool" where
  "truthy None = False"
| "truthy (Some s) = (s \<noteq> [])"

subsection \<open>Data\<close>

text \<open>One element of \<^verbatim>\<open>content\<close>: \<^verbatim>\<open>{type, text}\<close>.\<close>

record content_item =
  ctype :: string
  ctext :: string

text \<open>The tool response. \<^verbatim>\<open>isError\<close> is \<open>None\<close> when the object literal omits it.\<close>

record tool_response =
  content :: "content_item list"
  isError :: "bool option"

datatype error_code = InvalidParams

datatype mcp_error = McpError error_code string

text \<open>
  A caught value \<^verbatim>\<open>error: any\<close>: its \<^verbatim>\<open>.name\<close>, its \<^verbatim>\<open>.message\<close>, and what
  \<^verbatim>\<open>String(error)\<close> gives.
\<close>

record js_error =
  error_name :: "string option"
  message :: "string option"
  error_string :: string

record node =
  ntype :: string

record tag =
  tag_name :: string

text \<open>A workflow as the API client returns it; \<^verbatim>\<open>tags\<close> may be absent.\<close>

record workflow =
  wf_id :: string
  wf_name :: string
  active :: bool
  created_at :: string
  updated_at :: string
  nodes :: "node list"
  tags :: "tag list option"

text \<open>A workflow after the schema parse, as it goes to the node validator and the API.\<close>

record parsed_workflow =
  pw_name :: string
  pw_nodes :: "node list"

text \<open>The result of \<^verbatim>\<open>CreateWorkflowInputSchema.parse\<close>.\<close>

record create_input =
  ci_workflow :: parsed_workflow
  ci_activate :: bool

text \<open>One report of the node validator.\<close>

record invalid_node =
  node_type :: string
  suggestion :: "string option"

text \<open>The argument object \<^verbatim>\<open>args\<close>; \<open>'w\<close> is the unparsed workflow payload.\<close>

record 'w tool_args =
  arg_id :: "string option"
  arg_workflow :: "'w option"
  arg_verbosity :: "string option"

text \<open>\<^verbatim>\<open>WORKFLOW_COMPOSITION_GUIDE\<close>, the four sections the handlers read.\<close>

record composition_guide =
  node_categories :: string
  common_patterns :: string
  core_principles :: string
  workflow_creation_process :: string

text \<open>
  The imported modules and the runtime: \<^verbatim>\<open>config.output_verbosity\<close>, the guide, the
  node validator, the two schema parsers, \<^verbatim>\<open>new Date(x).toLocaleString()\<close>, and
  \<^verbatim>\<open>JSON.stringify(x, null, 2)\<close> on a workflow and on a list of workflows.
\<close>

record 'w env =
  output_verbosity :: string
  guide :: composition_guide
  validate_workflow_nodes :: "node list \<Rightarrow> js_error + invalid_node list"
  parse_create_input :: "'w tool_args \<Rightarrow> js_error + create_input"
  parse_workflow :: "'w \<Rightarrow> js_error + parsed_workflow"
  to_locale_string :: "string \<Rightarrow> string"
  stringify_workflow :: "workflow \<Rightarrow> string"
  stringify_workflows :: "workflow list \<Rightarrow> string"

text \<open>
  The API client. \<^verbatim>\<open>list_workflows\<close> may resolve to \<^verbatim>\<open>null\<close> or \<^verbatim>\<open>undefined\<close>
  (\<open>None\<close>), which the handler tests for.
\<close>

record 'w api_client =
  list_workflows :: "'w tool_args \<Rightarrow> js_error + workflow list option"
  create_workflow :: "parsed_workflow \<Rightarrow> bool \<Rightarrow> js_error + workflow"
  get_workflow :: "string \<Rightarrow> js_error + workflow"
  update_workflow :: "string \<Rightarrow> parsed_workflow \<Rightarrow> js_error + workflow"
  delete_workflow :: "string \<Rightarrow> js_error + unit"
  activate_workflow :: "string \<Rightarrow> js_error + workflow"
  deactivate_workflow :: "string \<Rightarrow> js_error + workflow"

text \<open>A call of the API client that a handler made.\<close>

datatype 'w api_call =
    Call_list_workflows "'w tool_args"
  | Call_create_workflow parsed_workflow bool
  | Call_get_workflow string
  | Call_update_workflow string parsed_workflow
  | Call_delete_workflow string
  | Call_activate_workflow string
  | Call_deactivate_workflow string

type_synonym 'w outcome = "'w api_call list \<times> (mcp_error + tool_response)"

subsection \<open>The two helpers\<close>

text \<open>\<^verbatim>\<open>a || b\<close> where \<open>a\<close> is an optional string: \<open>b\<close> when \<open>a\<close> is falsy.\<close>

fun or_else :: "string option \<Rightarrow> string \<Rightarrow> string" where
  "or_else None d = d"
| "or_else (Some s) d = (if s = [] then d else s)"

text \<open>\<^verbatim>\<open>error.message || String(error)\<close>, the text the catch blocks print.\<close>

definition error_text :: "js_error \<Rightarrow> string" where
  "error_text error = or_else (message error) (error_string error)"

text \<open>The two shapes of object literal the handlers return.\<close>

definition text_response :: "string \<Rightarrow> tool_response" where
  "text_response t = \<lparr>content = [\<lparr>ctype = ''text'', ctext = t\<rparr>], isError = None\<rparr>"

definition error_response :: "string \<Rightarrow> tool_response" where
  "error_response t = \<lparr>content = [\<lparr>ctype = ''text'', ctext = t\<rparr>], isError = Some True\<rparr>"

text \<open>The text of a response: the text of its content elements (there is one).\<close>

definition response_text :: "tool_response \<Rightarrow> string" where
  "response_text r = concat (map ctext (content r))"

definition handle_validation_error :: "composition_guide \<Rightarrow> js_error \<Rightarrow> tool_response" where
  "handle_validation_error g error =
     (let error_message = or_else (message error) ''Validation error'';
          guidance =
            (if str_includes error_message ''nodes'' then node_categories g
             else if str_includes error_message ''connections'' then common_patterns g
             else if str_includes error_message ''trigger'' then core_principles g
             else workflow_creation_process g)
      in \<lparr>content =
            [\<lparr>ctype = ''text'',
              ctext = ''Validation error: '' @ error_message @
                ''\<newline>\<newline>Here's some guidance that might help:\<newline>\<newline>'' @ guidance\<rparr>],
          isError = Some True\<rparr>)"

text \<open>
  \<^verbatim>\<open>format_output\<close>. The first two arguments are \<^verbatim>\<open>config.output_verbosity\<close> and
  \<^verbatim>\<open>JSON.stringify(x, null, 2)\<close>; the other three are the source's. The details are
  data that \<^verbatim>\<open>JSON.stringify\<close> turns into a string, as the workflows of the API client
  are; the serialiser is the runtime's and stays a parameter.
\<close>

definition format_output ::
  "string \<Rightarrow> ('d \<Rightarrow> string) \<Rightarrow> string \<Rightarrow> 'd \<Rightarrow> string option \<Rightarrow> string" where
  "format_output config_output_verbosity stringify summary details verbosity =
     (let output_verbosity = or_else verbosity config_output_verbosity
      in if output_verbosity = ''full''
         then summary @ ''\<newline>\<newline>Full details:\<newline>'' @ stringify details
         else summary)"

subsection \<open>The handlers\<close>

text \<open>\<^verbatim>\<open>x.tags?.map((tag) => tag.name).join(', ') || 'None'\<close>.\<close>

definition tags_text :: "tag list option \<Rightarrow> string" where
  "tags_text ts = or_else (map_option (\<lambda>l. join '', '' (map tag_name l)) ts) ''None''"

text \<open>The callback of \<^verbatim>\<open>workflows.map\<close> in \<^verbatim>\<open>handle_list_workflows\<close>.\<close>

definition workflow_list_entry :: "'w env \<Rightarrow> nat \<times> workflow \<Rightarrow> string" where
  \<open>workflow_list_entry env p =
     (case p of (index, wflow) \<Rightarrow>
        let status = (if active wflow then ''Active'' else ''Inactive'');
            tags = tags_text (tags wflow)
        in string_of_nat (index + 1) @ ''. "'' @ wf_name wflow @ ''" (ID: '' @ wf_id wflow @
           '')\<newline>   Status: '' @ status @
           ''\<newline>   Created: '' @ to_locale_string env (created_at wflow) @
           ''\<newline>   Tags: '' @ tags)\<close>

definition handle_list_workflows ::
  "'w env \<Rightarrow> 'w api_client \<Rightarrow> 'w tool_args \<Rightarrow> 'w outcome" where
  "handle_list_workflows env api_client args =
     ([Call_list_workflows args],
      Inr (case list_workflows api_client args of
             Inl error \<Rightarrow> error_response (''Error listing workflows: '' @ error_text error)
           | Inr None \<Rightarrow> text_response ''No workflows found.''
           | Inr (Some workflows) \<Rightarrow>
               if length workflows = 0 then text_response ''No workflows found.''
               else
                 let active_count = length (filter active workflows);
                     inactive_count = length workflows - active_count;
                     summary = ''Found '' @ string_of_nat (length workflows) @ '' workflow'' @
                       (if length workflows \<noteq> 1 then ''s'' else []) @
                       '' ('' @ string_of_nat active_count @ '' active, '' @
                       string_of_nat inactive_count @ '' inactive):\<newline>\<newline>'';
                     workflow_list =
                       join ''\<newline>\<newline>'' (map (workflow_list_entry env) (enumerate 0 workflows))
                 in text_response
                      (format_output (output_verbosity env) (stringify_workflows env)
                         (summary @ workflow_list) workflows (arg_verbosity args))))"

text \<open>The callback of \<^verbatim>\<open>invalid_nodes.map\<close>, the same in create and update.\<close>

definition invalid_node_message :: "invalid_node \<Rightarrow> string" where
  "invalid_node_message node =
     (let suggestion_text =
            (case suggestion node of
               Some s \<Rightarrow>
                 if s \<noteq> [] then ''Did you mean '' @ apostrophe @ s @ apostrophe @ ''?''
                 else ''No similar nodes found.''
             | None \<Rightarrow> ''No similar nodes found.'')
      in ''- '' @ apostrophe @ node_type node @ apostrophe @
         '': Not a valid n8n node. '' @ suggestion_text)"

text \<open>The catch block of \<^verbatim>\<open>handle_create_workflow\<close>.\<close>

definition create_workflow_catch :: "'w env \<Rightarrow> js_error \<Rightarrow> tool_response" where
  "create_workflow_catch env error =
     (if error_name error = Some ''ZodError'' then handle_validation_error (guide env) error
      else error_response (''Error creating workflow: '' @ error_text error))"

definition handle_create_workflow ::
  "'w env \<Rightarrow> 'w api_client \<Rightarrow> 'w tool_args \<Rightarrow> 'w outcome" where
  \<open>handle_create_workflow env api_client args =
     (case parse_create_input env args of
        Inl error \<Rightarrow> ([], Inr (create_workflow_catch env error))
      | Inr parsed_input \<Rightarrow>
          (case validate_workflow_nodes env (pw_nodes (ci_workflow parsed_input)) of
             Inl error \<Rightarrow> ([], Inr (create_workflow_catch env error))
           | Inr invalid_nodes \<Rightarrow>
               if length invalid_nodes > 0 then
                 ([], Inr (error_response
                    (''Workflow contains invalid node types:\<newline>'' @
                     join ''\<newline>'' (map invalid_node_message invalid_nodes) @
                     ''\<newline>\<newline>Please correct these node types before creating the workflow.\<newline>\<newline>'' @
                     ''Here are the available node categories for reference:\<newline>'' @
                     node_categories (guide env))))
               else
                 (case create_workflow api_client (ci_workflow parsed_input)
                         (ci_activate parsed_input) of
                    Inl error \<Rightarrow>
                      ([Call_create_workflow (ci_workflow parsed_input) (ci_activate parsed_input)],
                       Inr (create_workflow_catch env error))
                  | Inr workflow \<Rightarrow>
                      let activation_status =
                            (if active workflow then ''activated'' else ''created (not activated)'')
                      in ([Call_create_workflow (ci_workflow parsed_input) (ci_activate parsed_input)],
                          Inr (text_response
                            (''Successfully '' @ activation_status @ '' workflow "'' @
                             wf_name workflow @ ''" (ID: '' @ wf_id workflow @ '')''))))))\<close>

text \<open>
  \<^verbatim>\<open>handle_get_workflow\<close>. The test \<^verbatim>\<open>!args.id\<close> holds for an absent and for an
  empty \<^verbatim>\<open>id\<close>; the fault is thrown before the \<^verbatim>\<open>try\<close>.
\<close>

definition handle_get_workflow ::
  "'w env \<Rightarrow> 'w api_client \<Rightarrow> 'w tool_args \<Rightarrow> 'w outcome" where
  \<open>handle_get_workflow env api_client args =
     (case arg_id args of
        None \<Rightarrow> ([], Inl (McpError InvalidParams ''Workflow ID is required''))
      | Some ident \<Rightarrow>
          if ident = [] then ([], Inl (McpError InvalidParams ''Workflow ID is required''))
          else
            ([Call_get_workflow ident],
             Inr (case get_workflow api_client ident of
                    Inl error \<Rightarrow>
                      error_response (''Error retrieving workflow: '' @ error_text error)
                  | Inr workflow \<Rightarrow>
                      let activation_status = (if active workflow then ''Active'' else ''Inactive'');
                          node_count = length (nodes workflow);
                          trigger_nodes =
                            length (filter (\<lambda>node. str_includes (toLowerCase (ntype node)) ''trigger'')
                                      (nodes workflow));
                          summary =
                            ''Workflow: "'' @ wf_name workflow @ ''" (ID: '' @ ident @
                            '')\<newline>Status: '' @ activation_status @
                            ''\<newline>Created: '' @ to_locale_string env (created_at workflow) @
                            ''\<newline>Updated: '' @ to_locale_string env (updated_at workflow) @
                            ''\<newline>Nodes: '' @ string_of_nat node_count @ '' (including '' @
                            string_of_nat trigger_nodes @ '' trigger nodes)\<newline>Tags: '' @
                            tags_text (tags workflow)
                      in text_response
                           (format_output (output_verbosity env) (stringify_workflow env)
                              summary workflow (arg_verbosity args)))))\<close>

text \<open>The catch block of \<^verbatim>\<open>handle_update_workflow\<close>.\<close>

definition update_workflow_catch :: "'w env \<Rightarrow> js_error \<Rightarrow> tool_response" where
  "update_workflow_catch env error =
     (if error_name error = Some ''ZodError'' then handle_validation_error (guide env) error
      else error_response (''Error updating workflow: '' @ error_text error))"

text \<open>What \<^verbatim>\<open>handle_update_workflow\<close> throws when \<^verbatim>\<open>!args.id || !args.workflow\<close>.\<close>

definition update_fault :: mcp_error where
  "update_fault = McpError InvalidParams ''Workflow ID and updated workflow data are required''"

definition handle_update_workflow ::
  "'w env \<Rightarrow> 'w api_client \<Rightarrow> 'w tool_args \<Rightarrow> 'w outcome" where
  \<open>handle_update_workflow env api_client args =
     (case arg_id args of
        None \<Rightarrow> ([], Inl update_fault)
      | Some ident \<Rightarrow>
          if ident = [] then ([], Inl update_fault)
          else
            (case arg_workflow args of
               None \<Rightarrow> ([], Inl update_fault)
             | Some raw_workflow \<Rightarrow>
                 (case parse_workflow env raw_workflow of
                    Inl error \<Rightarrow> ([], Inr (update_workflow_catch env error))
                  | Inr parsed_workflow \<Rightarrow>
                      (case validate_workflow_nodes env (pw_nodes parsed_workflow) of
                         Inl error \<Rightarrow> ([], Inr (update_workflow_catch env error))
                       | Inr invalid_nodes \<Rightarrow>
                           if length invalid_nodes > 0 then
                             ([], Inr (error_response
                                (''Workflow contains invalid node types:\<newline>'' @
                                 join ''\<newline>'' (map invalid_node_message invalid_nodes) @
                                 ''\<newline>\<newline>Please correct these node types before updating the workflow.\<newline>\<newline>'' @
                                 ''Here are the available node categories for reference:\<newline>'' @
                                 node_categories (guide env))))
                           else
                             (case update_workflow api_client ident parsed_workflow of
                                Inl error \<Rightarrow>
                                  ([Call_update_workflow ident parsed_workflow],
                                   Inr (update_workflow_catch env error))
                              | Inr workflow \<Rightarrow>
                                  let activation_status =
                                        (if active workflow then ''active'' else ''inactive'')
                                  in ([Call_update_workflow ident parsed_workflow],
                                      Inr (text_response
                                        (''Successfully updated workflow "'' @ wf_name workflow @
                                         ''" (ID: '' @ ident @ '', Status: '' @ activation_status @
                                         '')''))))))))\<close>

text \<open>
  \<^verbatim>\<open>handle_delete_workflow\<close>: the fetch and the delete stand in one \<^verbatim>\<open>try\<close>, the
  fetch first.
\<close>

definition handle_delete_workflow ::
  "'w api_client \<Rightarrow> 'w tool_args \<Rightarrow> 'w outcome" where
  \<open>handle_delete_workflow api_client args =
     (case arg_id args of
        None \<Rightarrow> ([], Inl (McpError InvalidParams ''Workflow ID is required''))
      | Some ident \<Rightarrow>
          if ident = [] then ([], Inl (McpError InvalidParams ''Workflow ID is required''))
          else
            (case get_workflow api_client ident of
               Inl error \<Rightarrow>
                 ([Call_get_workflow ident],
                  Inr (error_response (''Error deleting workflow: '' @ error_text error)))
             | Inr workflow \<Rightarrow>
                 (case delete_workflow api_client ident of
                    Inl error \<Rightarrow>
                      ([Call_get_workflow ident, Call_delete_workflow ident],
                       Inr (error_response (''Error deleting workflow: '' @ error_text error)))
                  | Inr result \<Rightarrow>
                      ([Call_get_workflow ident, Call_delete_workflow ident],
                       Inr (text_response
                         (''Successfully deleted workflow "'' @ wf_name workflow @
                          ''" (ID: '' @ ident @ '')''))))))\<close>

text \<open>
  \<^verbatim>\<open>handle_activate_workflow\<close>. The catch block tests
  \<^verbatim>\<open>error.message && error.message.includes('trigger')\<close> first.
\<close>

definition handle_activate_workflow ::
  "'w env \<Rightarrow> 'w api_client \<Rightarrow> 'w tool_args \<Rightarrow> 'w outcome" where
  \<open>handle_activate_workflow env api_client args =
     (case arg_id args of
        None \<Rightarrow> ([], Inl (McpError InvalidParams ''Workflow ID is required''))
      | Some ident \<Rightarrow>
          if ident = [] then ([], Inl (McpError InvalidParams ''Workflow ID is required''))
          else
            ([Call_activate_workflow ident],
             Inr (case activate_workflow api_client ident of
                    Inr result \<Rightarrow>
                      text_response
                        (''Successfully activated workflow "'' @ wf_name result @
                         ''" (ID: '' @ ident @ '')'')
                  | Inl error \<Rightarrow>
                      if truthy (message error) \<and>
                         str_includes (or_else (message error) []) ''trigger''
                      then
                        let core_principles = core_principles (guide env)
                        in error_response
                             (''Error activating workflow: '' @ or_else (message error) [] @
                              ''\<newline>\<newline>'' @
                              ''Note: Only workflows with automatic trigger nodes (Schedule, Webhook, etc.) can be activated. '' @
                              ''Workflows with only manual triggers cannot be automatically activated.\<newline>\<newline>'' @
                              ''Here are some core principles for workflow composition:\<newline>'' @
                              core_principles)
                      else error_response (''Error activating workflow: '' @ error_text error))))\<close>

definition handle_deactivate_workflow ::
  "'w api_client \<Rightarrow> 'w tool_args \<Rightarrow> 'w outcome" where
  \<open>handle_deactivate_workflow api_client args =
     (case arg_id args of
        None \<Rightarrow> ([], Inl (McpError InvalidParams ''Workflow ID is required''))
      | Some ident \<Rightarrow>
          if ident = [] then ([], Inl (McpError InvalidParams ''Workflow ID is required''))
          else
            ([Call_deactivate_workflow ident],
             Inr (case deactivate_workflow api_client ident of
                    Inr result \<Rightarrow>
                      text_response
                        (''Successfully deactivated workflow "'' @ wf_name result @
                         ''" (ID: '' @ ident @ '')'')
                  | Inl error \<Rightarrow>
                      error_response (''Error deactivating workflow: '' @ error_text error))))\<close>

subsection \<open>Outcomes and completion\<close>

text \<open>
  The message that \<^verbatim>\<open>handle_validation_error\<close> extracts: the local
  \<^verbatim>\<open>error_message\<close>.
\<close>

definition validation_message :: "js_error \<Rightarrow> string" where
  "validation_message error = or_else (message error) ''Validation error''"

text \<open>
  The handler returned a response, and \<^verbatim>\<open>isError\<close> is there (and true) exactly when
  the operation did not complete.
\<close>

definition responds :: "'w outcome \<Rightarrow> bool \<Rightarrow> bool" where
  "responds out completed =
     (case snd out of
        Inl fault \<Rightarrow> False
      | Inr r \<Rightarrow> isError r = (if completed then None else Some True))"

text \<open>The handler threw the invalid-params fault and had called nothing.\<close>

definition faults_before_call :: "'w outcome \<Rightarrow> bool" where
  "faults_before_call out =
     (fst out = [] \<and>
      (case snd out of
         Inl fault \<Rightarrow> (case fault of McpError code msg \<Rightarrow> code = InvalidParams)
       | Inr r \<Rightarrow> False))"

text \<open>The text of the response a handler returned.\<close>

definition outcome_text :: "'w outcome \<Rightarrow> string" where
  "outcome_text out = (case snd out of Inl fault \<Rightarrow> [] | Inr r \<Rightarrow> response_text r)"

text \<open>
  An operation completed as requested when every step of it went through: the parse,
  the node validation with no invalid node, and every call of the API client.
\<close>

definition list_completed :: "'w api_client \<Rightarrow> 'w tool_args \<Rightarrow> bool" where
  "list_completed api_client args = (\<not> isl (list_workflows api_client args))"

definition create_completed :: "'w env \<Rightarrow> 'w api_client \<Rightarrow> 'w tool_args \<Rightarrow> bool" where
  "create_completed env api_client args =
     (case parse_create_input env args of
        Inl error \<Rightarrow> False
      | Inr parsed_input \<Rightarrow>
          (case validate_workflow_nodes env (pw_nodes (ci_workflow parsed_input)) of
             Inl error \<Rightarrow> False
           | Inr invalid_nodes \<Rightarrow>
               invalid_nodes = [] \<and>
               \<not> isl (create_workflow api_client (ci_workflow parsed_input)
                        (ci_activate parsed_input))))"

definition get_completed :: "'w api_client \<Rightarrow> string \<Rightarrow> bool" where
  "get_completed api_client ident = (\<not> isl (get_workflow api_client ident))"

definition update_completed :: "'w env \<Rightarrow> 'w api_client \<Rightarrow> string \<Rightarrow> 'w \<Rightarrow> bool" where
  "update_completed env api_client ident raw_workflow =
     (case parse_workflow env raw_workflow of
        Inl error \<Rightarrow> False
      | Inr parsed_workflow \<Rightarrow>
          (case validate_workflow_nodes env (pw_nodes parsed_workflow) of
             Inl error \<Rightarrow> False
           | Inr invalid_nodes \<Rightarrow>
               invalid_nodes = [] \<and> \<not> isl (update_workflow api_client ident parsed_workflow)))"

definition delete_completed :: "'w api_client \<Rightarrow> string \<Rightarrow> bool" where
  "delete_completed api_client ident =
     (\<not> isl (get_workflow api_client ident) \<and> \<not> isl (delete_workflow api_client ident))"

definition activate_completed :: "'w api_client \<Rightarrow> string \<Rightarrow> bool" where
  "activate_completed api_client ident = (\<not> isl (activate_workflow api_client ident))"

definition deactivate_completed :: "'w api_client \<Rightarrow> string \<Rightarrow> bool" where
  "deactivate_completed api_client ident = (\<not> isl (deactivate_workflow api_client ident))"

subsection \<open>Example collaborators\<close>

text \<open>
  A small server with three workflows, a validator that knows two node types, and
  parsers that take a list of nodes for a workflow and refuse the empty one. The
  theorems are instantiated on them.
\<close>

definition example_guide :: composition_guide where
  "example_guide =
     \<lparr>node_categories = ''NODE CATEGORIES'', common_patterns = ''COMMON PATTERNS'',
      core_principles = ''CORE PRINCIPLES'', workflow_creation_process = ''CREATION PROCESS''\<rparr>"

definition zod_error :: js_error where
  "zod_error =
     \<lparr>error_name = Some ''ZodError'', message = Some ''workflow.nodes: Required'',
      error_string = ''ZodError: workflow.nodes: Required''\<rparr>"

definition not_found_error :: js_error where
  "not_found_error =
     \<lparr>error_name = Some ''Error'', message = Some ''Workflow not found'',
      error_string = ''Error: Workflow not found''\<rparr>"

definition no_trigger_error :: js_error where
  "no_trigger_error =
     \<lparr>error_name = Some ''Error'', message = Some ''Workflow has no trigger node'',
      error_string = ''Error: Workflow has no trigger node''\<rparr>"

definition example_validator :: "node list \<Rightarrow> js_error + invalid_node list" where
  "example_validator ns =
     Inr (map (\<lambda>n. \<lparr>node_type = ntype n,
                      suggestion = (if ntype n = ''webhok'' then Some ''webhook'' else None)\<rparr>)
            (filter (\<lambda>n. ntype n \<notin> set [''webhook'', ''set'']) ns))"

definition example_parse_workflow :: "node list \<Rightarrow> js_error + parsed_workflow" where
  "example_parse_workflow raw =
     (if raw = [] then Inl zod_error else Inr \<lparr>pw_name = ''New'', pw_nodes = raw\<rparr>)"

definition example_parse_create_input :: "node list tool_args \<Rightarrow> js_error + create_input" where
  "example_parse_create_input args =
     (case arg_workflow args of
        None \<Rightarrow> Inl zod_error
      | Some raw \<Rightarrow>
          if raw = [] then Inl zod_error
          else Inr \<lparr>ci_workflow = \<lparr>pw_name = ''New'', pw_nodes = raw\<rparr>, ci_activate = False\<rparr>)"

definition example_env :: "string \<Rightarrow> node list env" where
  "example_env verbosity =
     \<lparr>output_verbosity = verbosity, guide = example_guide,
      validate_workflow_nodes = example_validator,
      parse_create_input = example_parse_create_input,
      parse_workflow = example_parse_workflow,
      to_locale_string = (\<lambda>s. s),
      stringify_workflow = (\<lambda>w. ''{}''),
      stringify_workflows = (\<lambda>ws. ''[]'')\<rparr>"

definition example_workflow :: "string \<Rightarrow> bool \<Rightarrow> workflow" where
  "example_workflow ident is_active =
     \<lparr>wf_id = ident, wf_name = ''Nightly'', active = is_active,
      created_at = ''2024-01-01'', updated_at = ''2024-01-02'',
      nodes = [\<lparr>ntype = ''ScheduleTrigger''\<rparr>, \<lparr>ntype = ''Set''\<rparr>], tags = None\<rparr>"

definition example_client :: "node list api_client" where
  "example_client =
     \<lparr>list_workflows =
        (\<lambda>args. Inr (Some [example_workflow ''1'' True, example_workflow ''2'' False,
                            example_workflow ''3'' False])),
      create_workflow = (\<lambda>w a. Inr (example_workflow ''4'' a)),
      get_workflow =
        (\<lambda>i. if i = ''404'' then Inl not_found_error else Inr (example_workflow i False)),
      update_workflow = (\<lambda>i w. Inr (example_workflow i False)),
      delete_workflow = (\<lambda>i. Inr ()),
      activate_workflow =
        (\<lambda>i. if i = ''2'' then Inl no_trigger_error
             else if i = ''404'' then Inl not_found_error
             else Inr (example_workflow i True)),
      deactivate_workflow = (\<lambda>i. Inr (example_workflow i False))\<rparr>"

text \<open>A server without workflows.\<close>

definition empty_client :: "node list api_client" where
  "empty_client = example_client\<lparr>list_workflows := (\<lambda>args. Inr (Some []))\<rparr>"

definition example_args :: "string option \<Rightarrow> node list option \<Rightarrow> node list tool_args" where
  "example_args ident raw =
     \<lparr>arg_id = ident, arg_workflow = raw, arg_verbosity = None\<rparr>"

section \<open>Properties\<close>

subsection \<open>The runtime model\<close>

text \<open>\<^verbatim>\<open>includes\<close> is the contiguous-substring relation of the list library.\<close>

lemma str_includes_sublist: "str_includes s sub = sublist sub s"
  by (induction s) (auto simp: sublist_Cons_right)

lemma str_includes_iff:
  "str_includes s sub \<longleftrightarrow> (\<exists>before after. s = before @ sub @ after)"
  by (simp add: str_includes_sublist sublist_def)

text \<open>The printed number is the decimal notation of the number: it reads back.\<close>

lemma upt10: "[0 ..< 10] = [0, 1, 2, 3, 4, 5, 6, 7, 8, 9::nat]"
  by (simp add: upt_rec)

lemma digit_value_digit: "n < 10 \<Longrightarrow> digit_value (''0123456789'' ! n) = n"
proof -
  have "\<forall>k \<in> set [0 ..< 10]. digit_value (''0123456789'' ! k) = k"
    unfolding upt10 by (simp add: digit_value_def upt10)
  then show "n < 10 \<Longrightarrow> digit_value (''0123456789'' ! n) = n"
    by simp
qed

lemma nat_of_string_append:
  "nat_of_string (s @ [c]) = 10 * nat_of_string s + digit_value c"
  by (simp add: nat_of_string_def)

lemma nat_of_string_string_of_nat: "nat_of_string (string_of_nat n) = n"
proof (induction n rule: string_of_nat.induct)
  case (1 n)
  show ?case
  proof (cases "n < 10")
    case True
    then show ?thesis
      by (subst string_of_nat.simps) (simp add: nat_of_string_def digit_value_digit)
  next
    case False
    then have "nat_of_string (string_of_nat n) =
        10 * nat_of_string (string_of_nat (n div 10)) +
        digit_value (''0123456789'' ! (n mod 10))"
      by (subst string_of_nat.simps) (simp add: nat_of_string_append)
    also have "\<dots> = 10 * (n div 10) + n mod 10"
      using 1 False by (simp add: digit_value_digit)
    finally show ?thesis by simp
  qed
qed

lemma string_of_nat_inj: "string_of_nat m = string_of_nat n \<Longrightarrow> m = n"
  by (metis nat_of_string_string_of_nat)

subsection \<open>The response formatter\<close>

text \<open>
  Claim C9. For every summary and details value, \<^verbatim>\<open>format_output\<close> with the empty
  string as verbosity gives what it gives with the verbosity omitted: the configured
  default decides. In particular an explicit empty verbosity does not override a
  configured \<^verbatim>\<open>"full"\<close>: the full-details block is printed.
\<close>

theorem format_output_empty_verbosity:
  "format_output cfg stringify summary details (Some []) =
     format_output cfg stringify summary details None
   \<and> format_output ''full'' stringify summary details (Some []) =
     summary @ ''\<newline>\<newline>Full details:\<newline>'' @ stringify details"
  by (simp add: format_output_def)

theorem format_output_empty_verbosity_witness:
  "format_output ''full'' string_of_nat ''S'' (7::nat) (Some []) =
     format_output ''full'' string_of_nat ''S'' 7 None
   \<and> format_output ''full'' string_of_nat ''S'' (7::nat) (Some []) =
     ''S\<newline>\<newline>Full details:\<newline>7''"
  using format_output_empty_verbosity [of "''full''" string_of_nat "''S''" "7::nat"]
  by (simp add: format_output_def)

text \<open>
  Claim C2, as stated, lets every explicitly supplied verbosity override the configured
  default, so that an explicit verbosity other than \<^verbatim>\<open>"full"\<close> gives the summary alone.
  With the configured default \<^verbatim>\<open>"full"\<close> and the explicit verbosity \<^verbatim>\<open>""\<close> the
  full-details block is printed all the same (the number 7 serialises as \<^verbatim>\<open>7\<close>).
\<close>

theorem format_output_explicit_empty_counterexample:
  "format_output ''full'' string_of_nat ''S'' (7::nat) (Some '''') =
     ''S\<newline>\<newline>Full details:\<newline>7''
   \<and> format_output ''full'' string_of_nat ''S'' (7::nat) (Some '''') \<noteq> ''S''"
  by (simp add: format_output_def)

text \<open>
  Claim C2, amended. For every summary, details value and verbosity argument: the
  explicit verbosity \<^verbatim>\<open>"full"\<close> gives the summary followed by the labelled block with
  the details serialised by \<^verbatim>\<open>JSON.stringify(details, null, 2)\<close>, whatever the
  configuration; every other non-empty explicit verbosity, recognised or not, gives the
  summary exactly, whatever the configuration; an omitted or empty verbosity leaves the
  decision to the configured default, which prints the block when it is \<^verbatim>\<open>"full"\<close>
  and the summary alone otherwise. The result is a function of these inputs and the
  configured default alone.
\<close>

theorem format_output_verbosity:
  "format_output cfg stringify summary details (Some ''full'') =
     summary @ ''\<newline>\<newline>Full details:\<newline>'' @ stringify details
   \<and> (v \<noteq> [] \<and> v \<noteq> ''full'' \<longrightarrow>
        format_output cfg stringify summary details (Some v) = summary)
   \<and> (V = None \<or> V = Some [] \<longrightarrow>
        format_output cfg stringify summary details V =
          (if cfg = ''full''
           then summary @ ''\<newline>\<newline>Full details:\<newline>'' @ stringify details
           else summary))"
  by (auto simp: format_output_def)

theorem format_output_verbosity_witness:
  "format_output ''concise'' string_of_nat ''S'' (7::nat) (Some ''full'') =
     ''S\<newline>\<newline>Full details:\<newline>7''
   \<and> format_output ''full'' string_of_nat ''S'' (7::nat) (Some ''concise'') = ''S''
   \<and> format_output ''full'' string_of_nat ''S'' (7::nat) None =
     ''S\<newline>\<newline>Full details:\<newline>7''"
  using format_output_verbosity
    [where cfg = "''concise''" and stringify = string_of_nat and summary = "''S''"
       and details = "7::nat" and v = "''x''" and V = "Some ''x''"]
    format_output_verbosity
    [where cfg = "''full''" and stringify = string_of_nat and summary = "''S''"
       and details = "7::nat" and v = "''concise''" and V = None]
  by simp

text \<open>Whatever the verbosity, the output begins with the summary.\<close>

lemma format_output_prefix:
  "prefix summary (format_output cfg stringify summary details verbosity)"
  by (simp add: format_output_def Let_def)

subsection \<open>Validation error guidance\<close>

text \<open>
  Claim C3. For every error, \<^verbatim>\<open>handle_validation_error\<close> returns a response with
  \<^verbatim>\<open>isError\<close> true and one text element: \<^verbatim>\<open>Validation error: \<close>, the extracted
  message, the line that introduces the guidance, and one section of the guide. The
  section is chosen by the first match in the fixed order: the message contains
  \<^verbatim>\<open>nodes\<close>, then the node categories; else it contains \<^verbatim>\<open>connections\<close>, then the
  common patterns; else it contains \<^verbatim>\<open>trigger\<close>, then the core principles; else the
  workflow creation process. When the error has no \<^verbatim>\<open>.message\<close> the extracted message
  is the literal \<^verbatim>\<open>Validation error\<close>; a non-empty \<^verbatim>\<open>.message\<close> is taken as it is.
  The function is total on the errors of the model and its result depends on the error
  and the guide alone.
\<close>

theorem handle_validation_error_guidance:
  "handle_validation_error g error =
     \<lparr>content =
        [\<lparr>ctype = ''text'',
          ctext = ''Validation error: '' @ validation_message error @
            ''\<newline>\<newline>Here's some guidance that might help:\<newline>\<newline>'' @
            (if sublist ''nodes'' (validation_message error) then node_categories g
             else if sublist ''connections'' (validation_message error) then common_patterns g
             else if sublist ''trigger'' (validation_message error) then core_principles g
             else workflow_creation_process g)\<rparr>],
      isError = Some True\<rparr>
   \<and> (message error = None \<longrightarrow> validation_message error = ''Validation error'')
   \<and> (message error = Some m \<and> m \<noteq> [] \<longrightarrow> validation_message error = m)"
  by (simp add: handle_validation_error_def validation_message_def str_includes_sublist Let_def)

text \<open>
  A Zod error about \<^verbatim>\<open>workflow.nodes\<close> gets the node categories; an error without
  message gets the fallback and the default section.
\<close>

theorem handle_validation_error_guidance_witness:
  "handle_validation_error example_guide zod_error =
     \<lparr>content =
        [\<lparr>ctype = ''text'',
          ctext = ''Validation error: workflow.nodes: Required\<newline>\<newline>Here's some guidance that might help:\<newline>\<newline>NODE CATEGORIES''\<rparr>],
      isError = Some True\<rparr>
   \<and> handle_validation_error example_guide
       \<lparr>error_name = Some ''ZodError'', message = None, error_string = ''ZodError''\<rparr> =
     \<lparr>content =
        [\<lparr>ctype = ''text'',
          ctext = ''Validation error: Validation error\<newline>\<newline>Here's some guidance that might help:\<newline>\<newline>CREATION PROCESS''\<rparr>],
      isError = Some True\<rparr>"
  using handle_validation_error_guidance
    [where g = example_guide and error = zod_error and m = "''workflow.nodes: Required''"]
    handle_validation_error_guidance
    [where g = example_guide
       and error = "\<lparr>error_name = Some ''ZodError'', message = None, error_string = ''ZodError''\<rparr>"
       and m = "''x''"]
  by (simp add: zod_error_def example_guide_def str_includes_sublist [symmetric])

subsection \<open>Listing\<close>

text \<open>
  Claim C7. When the API client returns an empty list, \<^verbatim>\<open>handle_list_workflows\<close>
  returns exactly one text element \<^verbatim>\<open>No workflows found.\<close> and no \<^verbatim>\<open>isError\<close>. When
  it returns a non-empty list of N workflows of which A are active, the response has no
  \<^verbatim>\<open>isError\<close> and its text begins with \<^verbatim>\<open>Found N workflows (A active, I inactive):\<close>
  where I is N - A, and \<^verbatim>\<open>workflow\<close> is singular exactly when N is 1. This holds for
  every verbosity.
\<close>

theorem handle_list_workflows_report:
  "(list_workflows api_client args = Inr (Some []) \<longrightarrow>
      handle_list_workflows env api_client args =
        ([Call_list_workflows args],
         Inr \<lparr>content = [\<lparr>ctype = ''text'', ctext = ''No workflows found.''\<rparr>],
              isError = None\<rparr>))
   \<and> (list_workflows api_client args = Inr (Some ws) \<and> ws \<noteq> [] \<longrightarrow>
        responds (handle_list_workflows env api_client args) True
        \<and> prefix
            (''Found '' @ string_of_nat (length ws) @
             (if length ws = 1 then '' workflow'' else '' workflows'') @
             '' ('' @ string_of_nat (length (filter active ws)) @ '' active, '' @
             string_of_nat (length ws - length (filter active ws)) @ '' inactive):'')
            (outcome_text (handle_list_workflows env api_client args)))"
proof (intro conjI impI)
  assume "list_workflows api_client args = Inr (Some [])"
  then show "handle_list_workflows env api_client args =
        ([Call_list_workflows args],
         Inr \<lparr>content = [\<lparr>ctype = ''text'', ctext = ''No workflows found.''\<rparr>],
              isError = None\<rparr>)"
    by (simp add: handle_list_workflows_def text_response_def)
next
  assume a: "list_workflows api_client args = Inr (Some ws) \<and> ws \<noteq> []"
  then show "responds (handle_list_workflows env api_client args) True"
    by (simp add: handle_list_workflows_def responds_def text_response_def Let_def)
next
  let ?head = "''Found '' @ string_of_nat (length ws) @
             (if length ws = 1 then '' workflow'' else '' workflows'') @
             '' ('' @ string_of_nat (length (filter active ws)) @ '' active, '' @
             string_of_nat (length ws - length (filter active ws)) @ '' inactive):''"
  assume a: "list_workflows api_client args = Inr (Some ws) \<and> ws \<noteq> []"
  have t: "outcome_text (handle_list_workflows env api_client args) =
     format_output (output_verbosity env) (stringify_workflows env)
       (?head @ ''\<newline>\<newline>'' @
        join ''\<newline>\<newline>'' (map (workflow_list_entry env) (enumerate 0 ws)))
       ws (arg_verbosity args)"
    using a
    by (simp add: handle_list_workflows_def outcome_text_def response_text_def
        text_response_def Let_def)
  have "prefix (?head @ ''\<newline>\<newline>'' @
        join ''\<newline>\<newline>'' (map (workflow_list_entry env) (enumerate 0 ws)))
      (outcome_text (handle_list_workflows env api_client args))"
    unfolding t by (rule format_output_prefix)
  then show "prefix ?head (outcome_text (handle_list_workflows env api_client args))"
    using append_prefixD by blast
qed

text \<open>
  The server without workflows, and the server with one active and two inactive
  workflows: \<^verbatim>\<open>Found 3 workflows (1 active, 2 inactive):\<close>.
\<close>

theorem handle_list_workflows_report_witness:
  "handle_list_workflows (example_env ''concise'') empty_client (example_args None None) =
     ([Call_list_workflows (example_args None None)],
      Inr \<lparr>content = [\<lparr>ctype = ''text'', ctext = ''No workflows found.''\<rparr>],
           isError = None\<rparr>)
   \<and> responds
       (handle_list_workflows (example_env ''concise'') example_client (example_args None None))
       True
   \<and> prefix ''Found 3 workflows (1 active, 2 inactive):''
       (outcome_text
          (handle_list_workflows (example_env ''concise'') example_client
             (example_args None None)))"
  using handle_list_workflows_report
    [where env = "example_env ''concise''" and api_client = empty_client
       and args = "example_args None None"
       and ws = "[example_workflow ''1'' True]"]
    handle_list_workflows_report
    [where env = "example_env ''concise''" and api_client = example_client
       and args = "example_args None None"
       and ws = "[example_workflow ''1'' True, example_workflow ''2'' False,
                  example_workflow ''3'' False]"]
  by (simp add: empty_client_def example_client_def example_workflow_def string_of_nat.simps)

subsection \<open>Reading one workflow\<close>

text \<open>
  Claim C8. For \<^verbatim>\<open>handle_get_workflow\<close> with an id and a workflow that was fetched, the
  response has no \<^verbatim>\<open>isError\<close> and its text begins with the summary whose line
  \<^verbatim>\<open>Nodes: N (including T trigger nodes)\<close> reports as T the number of nodes whose type,
  in lower case, has \<^verbatim>\<open>trigger\<close> as a contiguous substring, and as N the number of
  nodes.
\<close>

theorem handle_get_workflow_trigger_count:
  \<open>arg_id args = Some i \<and> i \<noteq> [] \<and> get_workflow api_client i = Inr w \<longrightarrow>
     responds (handle_get_workflow env api_client args) True
     \<and> prefix
         (''Workflow: "'' @ wf_name w @ ''" (ID: '' @ i @
          '')\<newline>Status: '' @ (if active w then ''Active'' else ''Inactive'') @
          ''\<newline>Created: '' @ to_locale_string env (created_at w) @
          ''\<newline>Updated: '' @ to_locale_string env (updated_at w) @
          ''\<newline>Nodes: '' @ string_of_nat (length (nodes w)) @ '' (including '' @
          string_of_nat
            (length (filter (\<lambda>n. sublist ''trigger'' (toLowerCase (ntype n))) (nodes w))) @
          '' trigger nodes)'')
         (outcome_text (handle_get_workflow env api_client args))\<close>
proof (intro impI conjI)
  let ?head = \<open>''Workflow: "'' @ wf_name w @ ''" (ID: '' @ i @
          '')\<newline>Status: '' @ (if active w then ''Active'' else ''Inactive'') @
          ''\<newline>Created: '' @ to_locale_string env (created_at w) @
          ''\<newline>Updated: '' @ to_locale_string env (updated_at w) @
          ''\<newline>Nodes: '' @ string_of_nat (length (nodes w)) @ '' (including '' @
          string_of_nat
            (length (filter (\<lambda>n. sublist ''trigger'' (toLowerCase (ntype n))) (nodes w))) @
          '' trigger nodes)''\<close>
  assume a: "arg_id args = Some i \<and> i \<noteq> [] \<and> get_workflow api_client i = Inr w"
  then show "responds (handle_get_workflow env api_client args) True"
    by (simp add: handle_get_workflow_def responds_def text_response_def Let_def)
  have t: "outcome_text (handle_get_workflow env api_client args) =
     format_output (output_verbosity env) (stringify_workflow env)
       (?head @ ''\<newline>Tags: '' @ tags_text (tags w)) w (arg_verbosity args)"
    using a
    by (simp add: handle_get_workflow_def outcome_text_def response_text_def
        text_response_def Let_def str_includes_sublist)
  have "prefix (?head @ ''\<newline>Tags: '' @ tags_text (tags w))
      (outcome_text (handle_get_workflow env api_client args))"
    unfolding t by (rule format_output_prefix)
  then show "prefix ?head (outcome_text (handle_get_workflow env api_client args))"
    using append_prefixD by blast
qed

text \<open>
  The nodes \<^verbatim>\<open>ScheduleTrigger\<close> and \<^verbatim>\<open>Set\<close>: \<^verbatim>\<open>Nodes: 2 (including 1 trigger nodes)\<close>.
\<close>

theorem handle_get_workflow_trigger_count_witness:
  \<open>responds
     (handle_get_workflow (example_env ''concise'') example_client
        (example_args (Some ''1'') None)) True
   \<and> prefix
       ''Workflow: "Nightly" (ID: 1)\<newline>Status: Inactive\<newline>Created: 2024-01-01\<newline>Updated: 2024-01-02\<newline>Nodes: 2 (including 1 trigger nodes)''
       (outcome_text
          (handle_get_workflow (example_env ''concise'') example_client
             (example_args (Some ''1'') None)))\<close>
  using handle_get_workflow_trigger_count
    [where env = "example_env ''concise''" and api_client = example_client
       and args = "example_args (Some ''1'') None" and i = "''1''"
       and w = "example_workflow ''1'' False"]
  by (simp add: example_client_def example_workflow_def example_args_def example_env_def
      string_of_nat.simps str_includes_sublist [symmetric] toLowerCase_def to_lower_char_def)

subsection \<open>Creating and updating\<close>

text \<open>
  Claim C6. When the payload passes the schema and the node validator reports a
  non-empty list of invalid nodes, \<^verbatim>\<open>handle_create_workflow\<close> calls nothing and returns
  a response with \<^verbatim>\<open>isError\<close> true whose text is the heading, one line for every
  reported node in the order of the report, the request to correct them, and the node
  categories of the guide. The line of a node with a suggestion (a non-empty string)
  holds the node type and \<^verbatim>\<open>Did you mean '<suggestion>'?\<close>; the line of a node
  without one holds the node type and \<^verbatim>\<open>No similar nodes found.\<close>, and so does the
  line of a node whose suggestion is the empty string, which the code takes for none.
\<close>

theorem handle_create_workflow_invalid_nodes:
  "(parse_create_input env args = Inr p \<and>
    validate_workflow_nodes env (pw_nodes (ci_workflow p)) = Inr invalid \<and> invalid \<noteq> [] \<longrightarrow>
      handle_create_workflow env api_client args =
        ([],
         Inr \<lparr>content =
                [\<lparr>ctype = ''text'',
                  ctext = ''Workflow contains invalid node types:\<newline>'' @
                    join ''\<newline>'' (map invalid_node_message invalid) @
                    ''\<newline>\<newline>Please correct these node types before creating the workflow.\<newline>\<newline>Here are the available node categories for reference:\<newline>'' @
                    node_categories (guide env)\<rparr>],
              isError = Some True\<rparr>))
   \<and> (suggestion n = Some s \<and> s \<noteq> [] \<longrightarrow>
        invalid_node_message n =
          ''- '' @ apostrophe @ node_type n @ apostrophe @
          '': Not a valid n8n node. Did you mean '' @ apostrophe @ s @ apostrophe @ ''?'')
   \<and> (suggestion n = None \<or> suggestion n = Some [] \<longrightarrow>
        invalid_node_message n =
          ''- '' @ apostrophe @ node_type n @ apostrophe @
          '': Not a valid n8n node. No similar nodes found.'')"
  by (auto simp: handle_create_workflow_def error_response_def invalid_node_message_def)

text \<open>
  A payload with the nodes \<^verbatim>\<open>webhok\<close>, \<^verbatim>\<open>set\<close> and \<^verbatim>\<open>zzz\<close>: the first has a
  suggestion, the last has none, and they are listed in this order.
\<close>

theorem handle_create_workflow_invalid_nodes_witness:
  "handle_create_workflow (example_env ''concise'') example_client
     (example_args None (Some [\<lparr>ntype = ''webhok''\<rparr>, \<lparr>ntype = ''set''\<rparr>, \<lparr>ntype = ''zzz''\<rparr>])) =
     ([],
      Inr \<lparr>content =
             [\<lparr>ctype = ''text'',
               ctext = ''Workflow contains invalid node types:\<newline>'' @
                 ''- '' @ apostrophe @ ''webhok'' @ apostrophe @
                 '': Not a valid n8n node. Did you mean '' @ apostrophe @ ''webhook'' @
                 apostrophe @ ''?\<newline>'' @
                 ''- '' @ apostrophe @ ''zzz'' @ apostrophe @
                 '': Not a valid n8n node. No similar nodes found.'' @
                 ''\<newline>\<newline>Please correct these node types before creating the workflow.\<newline>\<newline>Here are the available node categories for reference:\<newline>NODE CATEGORIES''\<rparr>],
           isError = Some True\<rparr>)"
  using handle_create_workflow_invalid_nodes
    [where env = "example_env ''concise''" and api_client = example_client
       and args = "example_args None (Some [\<lparr>ntype = ''webhok''\<rparr>, \<lparr>ntype = ''set''\<rparr>, \<lparr>ntype = ''zzz''\<rparr>])"
       and p = "\<lparr>ci_workflow = \<lparr>pw_name = ''New'', pw_nodes = [\<lparr>ntype = ''webhok''\<rparr>, \<lparr>ntype = ''set''\<rparr>, \<lparr>ntype = ''zzz''\<rparr>]\<rparr>, ci_activate = False\<rparr>"
       and invalid = "[\<lparr>node_type = ''webhok'', suggestion = Some ''webhook''\<rparr>,
                   \<lparr>node_type = ''zzz'', suggestion = None\<rparr>]"
       and n = "\<lparr>node_type = ''webhok'', suggestion = Some ''webhook''\<rparr>"
       and s = "''webhook''"]
    handle_create_workflow_invalid_nodes
    [where n = "\<lparr>node_type = ''zzz'', suggestion = None\<rparr>"]
  by (simp add: example_env_def example_args_def example_parse_create_input_def
      example_validator_def example_guide_def invalid_node_message_def)

text \<open>
  Claim C10. When the validation before the call fails, that is the schema parse
  throws or the node validator returns a non-empty list of invalid nodes,
  \<^verbatim>\<open>handle_create_workflow\<close> and \<^verbatim>\<open>handle_update_workflow\<close> make no call of the API
  client at all; in particular \<^verbatim>\<open>create_workflow\<close> and \<^verbatim>\<open>update_workflow\<close> are not
  invoked.
\<close>

theorem validation_failure_makes_no_call:
  "(isl (parse_create_input env args) \<or>
    (parse_create_input env args = Inr p \<and>
     validate_workflow_nodes env (pw_nodes (ci_workflow p)) = Inr invalid \<and> invalid \<noteq> [])
    \<longrightarrow> fst (handle_create_workflow env api_client args) = [])
   \<and> (arg_workflow args = Some raw \<and>
        (isl (parse_workflow env raw) \<or>
         (parse_workflow env raw = Inr pw \<and>
          validate_workflow_nodes env (pw_nodes pw) = Inr invalid \<and> invalid \<noteq> []))
        \<longrightarrow> fst (handle_update_workflow env api_client args) = [])"
  by (auto simp: handle_create_workflow_def handle_update_workflow_def isl_def
      split: option.splits sum.splits)

text \<open>
  A payload that the schema refuses and a payload with an unknown node, for create and
  for update.
\<close>

theorem validation_failure_makes_no_call_witness:
  "fst (handle_create_workflow (example_env ''concise'') example_client
          (example_args None None)) = []
   \<and> fst (handle_create_workflow (example_env ''concise'') example_client
          (example_args None (Some [\<lparr>ntype = ''zzz''\<rparr>]))) = []
   \<and> fst (handle_update_workflow (example_env ''concise'') example_client
          (example_args (Some ''1'') (Some []))) = []
   \<and> fst (handle_update_workflow (example_env ''concise'') example_client
          (example_args (Some ''1'') (Some [\<lparr>ntype = ''zzz''\<rparr>]))) = []"
  using validation_failure_makes_no_call
    [where env = "example_env ''concise''" and api_client = example_client
       and args = "example_args None None" and raw = "[]"]
    validation_failure_makes_no_call
    [where env = "example_env ''concise''" and api_client = example_client
       and args = "example_args None (Some [\<lparr>ntype = ''zzz''\<rparr>])"
       and p = "\<lparr>ci_workflow = \<lparr>pw_name = ''New'', pw_nodes = [\<lparr>ntype = ''zzz''\<rparr>]\<rparr>,
                  ci_activate = False\<rparr>"
       and invalid = "[\<lparr>node_type = ''zzz'', suggestion = None\<rparr>]" and raw = "[]"]
    validation_failure_makes_no_call
    [where env = "example_env ''concise''" and api_client = example_client
       and args = "example_args (Some ''1'') (Some [])" and raw = "[]"]
    validation_failure_makes_no_call
    [where env = "example_env ''concise''" and api_client = example_client
       and args = "example_args (Some ''1'') (Some [\<lparr>ntype = ''zzz''\<rparr>])"
       and raw = "[\<lparr>ntype = ''zzz''\<rparr>]"
       and pw = "\<lparr>pw_name = ''New'', pw_nodes = [\<lparr>ntype = ''zzz''\<rparr>]\<rparr>"
       and invalid = "[\<lparr>node_type = ''zzz'', suggestion = None\<rparr>]"]
  by (simp add: example_env_def example_args_def example_parse_create_input_def
      example_parse_workflow_def example_validator_def)

subsection \<open>Deleting\<close>

text \<open>
  Claim C4. For \<^verbatim>\<open>handle_delete_workflow\<close> with an id: the workflow is fetched first.
  When the fetch fails, the fetch is the only call, and the response has \<^verbatim>\<open>isError\<close>
  true and the text \<^verbatim>\<open>Error deleting workflow: \<close> followed by the text of the fetch
  error. When the fetch succeeds the delete is called next; when it fails the response
  is the same envelope with the text of the delete error; when it succeeds the response
  names the fetched workflow. The text of an error is its message when that is
  non-empty.
\<close>

theorem handle_delete_workflow_fetch_first:
  \<open>arg_id args = Some i \<and> i \<noteq> [] \<longrightarrow>
     (get_workflow api_client i = Inl e \<longrightarrow>
        handle_delete_workflow api_client args =
          ([Call_get_workflow i],
           Inr \<lparr>content =
                  [\<lparr>ctype = ''text'', ctext = ''Error deleting workflow: '' @ error_text e\<rparr>],
                isError = Some True\<rparr>))
     \<and> (get_workflow api_client i = Inr w \<and> delete_workflow api_client i = Inl e \<longrightarrow>
          handle_delete_workflow api_client args =
            ([Call_get_workflow i, Call_delete_workflow i],
             Inr \<lparr>content =
                    [\<lparr>ctype = ''text'', ctext = ''Error deleting workflow: '' @ error_text e\<rparr>],
                  isError = Some True\<rparr>))
     \<and> (get_workflow api_client i = Inr w \<and> delete_workflow api_client i = Inr u \<longrightarrow>
          handle_delete_workflow api_client args =
            ([Call_get_workflow i, Call_delete_workflow i],
             Inr \<lparr>content =
                    [\<lparr>ctype = ''text'',
                      ctext = ''Successfully deleted workflow "'' @ wf_name w @
                        ''" (ID: '' @ i @ '')''\<rparr>],
                  isError = None\<rparr>))
     \<and> (message e = Some m \<and> m \<noteq> [] \<longrightarrow> error_text e = m)\<close>
  by (simp add: handle_delete_workflow_def error_response_def text_response_def error_text_def)

text \<open>A fetch that fails, a delete that succeeds, and a delete that fails.\<close>

theorem handle_delete_workflow_fetch_first_witness:
  \<open>handle_delete_workflow example_client (example_args (Some ''404'') None) =
     ([Call_get_workflow ''404''],
      Inr \<lparr>content =
             [\<lparr>ctype = ''text'', ctext = ''Error deleting workflow: Workflow not found''\<rparr>],
           isError = Some True\<rparr>)
   \<and> handle_delete_workflow example_client (example_args (Some ''1'') None) =
     ([Call_get_workflow ''1'', Call_delete_workflow ''1''],
      Inr \<lparr>content =
             [\<lparr>ctype = ''text'', ctext = ''Successfully deleted workflow "Nightly" (ID: 1)''\<rparr>],
           isError = None\<rparr>)
   \<and> handle_delete_workflow
       (example_client\<lparr>delete_workflow := (\<lambda>i. Inl not_found_error)\<rparr>)
       (example_args (Some ''1'') None) =
     ([Call_get_workflow ''1'', Call_delete_workflow ''1''],
      Inr \<lparr>content =
             [\<lparr>ctype = ''text'', ctext = ''Error deleting workflow: Workflow not found''\<rparr>],
           isError = Some True\<rparr>)\<close>
  using handle_delete_workflow_fetch_first
    [where api_client = example_client and args = "example_args (Some ''404'') None"
       and i = "''404''" and e = not_found_error and m = "''Workflow not found''"]
    handle_delete_workflow_fetch_first
    [where api_client = example_client and args = "example_args (Some ''1'') None"
       and i = "''1''" and w = "example_workflow ''1'' False" and u = "()"]
    handle_delete_workflow_fetch_first
    [where api_client = "example_client\<lparr>delete_workflow := (\<lambda>i. Inl not_found_error)\<rparr>"
       and args = "example_args (Some ''1'') None"
       and i = "''1''" and w = "example_workflow ''1'' False" and e = not_found_error
       and m = "''Workflow not found''"]
  by (simp add: example_client_def example_args_def example_workflow_def not_found_error_def)

subsection \<open>Activating\<close>

text \<open>
  Claim C5. For \<^verbatim>\<open>handle_activate_workflow\<close> with an id, when the call of the API
  client fails: if the message of the error contains \<^verbatim>\<open>trigger\<close>, the response has
  \<^verbatim>\<open>isError\<close> true and its text is \<^verbatim>\<open>Error activating workflow: \<close> with the message,
  the note that only workflows with automatic trigger nodes can be activated, and the
  core principles of the guide; for every other failure the response has \<^verbatim>\<open>isError\<close>
  true and the text \<^verbatim>\<open>Error activating workflow: \<close> with the text of the error.
\<close>

theorem handle_activate_workflow_failure:
  "arg_id args = Some i \<and> i \<noteq> [] \<and> activate_workflow api_client i = Inl e \<longrightarrow>
     (message e = Some m \<and> sublist ''trigger'' m \<longrightarrow>
        handle_activate_workflow env api_client args =
          ([Call_activate_workflow i],
           Inr \<lparr>content =
                  [\<lparr>ctype = ''text'',
                    ctext = ''Error activating workflow: '' @ m @
                      ''\<newline>\<newline>Note: Only workflows with automatic trigger nodes (Schedule, Webhook, etc.) can be activated. Workflows with only manual triggers cannot be automatically activated.\<newline>\<newline>Here are some core principles for workflow composition:\<newline>'' @
                      core_principles (guide env)\<rparr>],
                isError = Some True\<rparr>))
     \<and> ((\<forall>t. message e = Some t \<longrightarrow> \<not> sublist ''trigger'' t) \<longrightarrow>
          handle_activate_workflow env api_client args =
            ([Call_activate_workflow i],
             Inr \<lparr>content =
                    [\<lparr>ctype = ''text'', ctext = ''Error activating workflow: '' @ error_text e\<rparr>],
                  isError = Some True\<rparr>))"
proof (intro impI conjI)
  assume a: "arg_id args = Some i \<and> i \<noteq> [] \<and> activate_workflow api_client i = Inl e"
    and b: "message e = Some m \<and> sublist ''trigger'' m"
  from b have "m \<noteq> []" by auto
  with a b show "handle_activate_workflow env api_client args =
          ([Call_activate_workflow i],
           Inr \<lparr>content =
                  [\<lparr>ctype = ''text'',
                    ctext = ''Error activating workflow: '' @ m @
                      ''\<newline>\<newline>Note: Only workflows with automatic trigger nodes (Schedule, Webhook, etc.) can be activated. Workflows with only manual triggers cannot be automatically activated.\<newline>\<newline>Here are some core principles for workflow composition:\<newline>'' @
                      core_principles (guide env)\<rparr>],
                isError = Some True\<rparr>)"
    by (simp add: handle_activate_workflow_def error_response_def str_includes_sublist Let_def)
next
  assume a: "arg_id args = Some i \<and> i \<noteq> [] \<and> activate_workflow api_client i = Inl e"
    and b: "\<forall>t. message e = Some t \<longrightarrow> \<not> sublist ''trigger'' t"
  have c: "(truthy (message e) \<and> str_includes (or_else (message e) []) ''trigger'') = False"
    using b by (cases "message e") (auto simp: str_includes_sublist)
  from a show "handle_activate_workflow env api_client args =
            ([Call_activate_workflow i],
             Inr \<lparr>content =
                    [\<lparr>ctype = ''text'', ctext = ''Error activating workflow: '' @ error_text e\<rparr>],
                  isError = Some True\<rparr>)"
    by (simp add: handle_activate_workflow_def error_response_def c Let_def)
qed

text \<open>The error \<^verbatim>\<open>Workflow has no trigger node\<close>, and an error that is not about triggers.\<close>

theorem handle_activate_workflow_failure_witness:
  "handle_activate_workflow (example_env ''concise'') example_client
     (example_args (Some ''2'') None) =
     ([Call_activate_workflow ''2''],
      Inr \<lparr>content =
             [\<lparr>ctype = ''text'',
               ctext = ''Error activating workflow: Workflow has no trigger node\<newline>\<newline>Note: Only workflows with automatic trigger nodes (Schedule, Webhook, etc.) can be activated. Workflows with only manual triggers cannot be automatically activated.\<newline>\<newline>Here are some core principles for workflow composition:\<newline>CORE PRINCIPLES''\<rparr>],
           isError = Some True\<rparr>)
   \<and> handle_activate_workflow (example_env ''concise'') example_client
       (example_args (Some ''404'') None) =
     ([Call_activate_workflow ''404''],
      Inr \<lparr>content =
             [\<lparr>ctype = ''text'', ctext = ''Error activating workflow: Workflow not found''\<rparr>],
           isError = Some True\<rparr>)"
  using handle_activate_workflow_failure
    [where env = "example_env ''concise''" and api_client = example_client
       and args = "example_args (Some ''2'') None" and i = "''2''" and e = no_trigger_error
       and m = "''Workflow has no trigger node''"]
    handle_activate_workflow_failure
    [where env = "example_env ''concise''" and api_client = example_client
       and args = "example_args (Some ''404'') None" and i = "''404''"
       and e = not_found_error and m = "''Workflow not found''"]
  by (simp add: example_client_def example_args_def example_env_def example_guide_def
      no_trigger_error_def not_found_error_def error_text_def
      str_includes_sublist [symmetric])

subsection \<open>All handlers\<close>

lemma handle_validation_error_isError:
  "isError (handle_validation_error g e) = Some True"
  by (simp add: handle_validation_error_def Let_def)

lemma create_catch_isError: "isError (create_workflow_catch env e) = Some True"
  by (simp add: create_workflow_catch_def handle_validation_error_isError error_response_def)

lemma update_catch_isError: "isError (update_workflow_catch env e) = Some True"
  by (simp add: update_workflow_catch_def handle_validation_error_isError error_response_def)

lemma list_responds:
  "responds (handle_list_workflows env api_client args) (list_completed api_client args)"
  by (auto simp: handle_list_workflows_def responds_def list_completed_def
      error_response_def text_response_def Let_def split: sum.splits option.splits)

lemma create_responds:
  "responds (handle_create_workflow env api_client args) (create_completed env api_client args)"
  by (auto simp: handle_create_workflow_def responds_def create_completed_def
      create_catch_isError error_response_def text_response_def Let_def
      split: sum.splits)

lemma get_responds:
  "arg_id args = Some i \<Longrightarrow> i \<noteq> [] \<Longrightarrow>
   responds (handle_get_workflow env api_client args) (get_completed api_client i)"
  by (auto simp: handle_get_workflow_def responds_def get_completed_def
      error_response_def text_response_def Let_def split: sum.splits)

lemma update_responds:
  "arg_id args = Some i \<Longrightarrow> i \<noteq> [] \<Longrightarrow> arg_workflow args = Some raw \<Longrightarrow>
   responds (handle_update_workflow env api_client args)
     (update_completed env api_client i raw)"
  by (auto simp: handle_update_workflow_def responds_def update_completed_def
      update_catch_isError error_response_def text_response_def Let_def
      split: sum.splits)

lemma delete_responds:
  "arg_id args = Some i \<Longrightarrow> i \<noteq> [] \<Longrightarrow>
   responds (handle_delete_workflow api_client args) (delete_completed api_client i)"
  by (auto simp: handle_delete_workflow_def responds_def delete_completed_def
      error_response_def text_response_def split: sum.splits)

lemma activate_responds:
  "arg_id args = Some i \<Longrightarrow> i \<noteq> [] \<Longrightarrow>
   responds (handle_activate_workflow env api_client args) (activate_completed api_client i)"
  by (auto simp: handle_activate_workflow_def responds_def activate_completed_def
      error_response_def text_response_def Let_def split: sum.splits)

lemma deactivate_responds:
  "arg_id args = Some i \<Longrightarrow> i \<noteq> [] \<Longrightarrow>
   responds (handle_deactivate_workflow api_client args) (deactivate_completed api_client i)"
  by (auto simp: handle_deactivate_workflow_def responds_def deactivate_completed_def
      error_response_def text_response_def split: sum.splits)

lemma missing_id_faults:
  "\<not> truthy (arg_id args) \<Longrightarrow>
   faults_before_call (handle_get_workflow env api_client args) \<and>
   faults_before_call (handle_update_workflow env api_client args) \<and>
   faults_before_call (handle_delete_workflow api_client args) \<and>
   faults_before_call (handle_activate_workflow env api_client args) \<and>
   faults_before_call (handle_deactivate_workflow api_client args)"
  by (cases "arg_id args")
    (simp_all add: faults_before_call_def handle_get_workflow_def handle_update_workflow_def
      handle_delete_workflow_def handle_activate_workflow_def handle_deactivate_workflow_def
      update_fault_def)

lemma missing_workflow_faults:
  "arg_workflow args = None \<Longrightarrow>
   faults_before_call (handle_update_workflow env api_client args)"
  by (simp add: faults_before_call_def handle_update_workflow_def update_fault_def
      split: option.splits)

text \<open>
  Claim C1. Every handler, on every argument object that passes its test for the
  required arguments, returns one response and throws nothing, and the response has
  \<^verbatim>\<open>isError\<close> true when the operation did not complete and no \<^verbatim>\<open>isError\<close> when it
  did. The list and the create handler require nothing; get, delete, activate and
  deactivate require a non-empty \<^verbatim>\<open>id\<close>; update requires a non-empty \<^verbatim>\<open>id\<close> and a
  \<^verbatim>\<open>workflow\<close>. When a required argument is missing (or the \<^verbatim>\<open>id\<close> is empty), the
  handler throws the invalid-params fault and has called nothing.
\<close>

theorem handlers_return_one_response:
  "responds (handle_list_workflows env api_client args) (list_completed api_client args)
   \<and> responds (handle_create_workflow env api_client args)
       (create_completed env api_client args)
   \<and> (arg_id args = Some i \<and> i \<noteq> [] \<longrightarrow>
        responds (handle_get_workflow env api_client args) (get_completed api_client i)
        \<and> responds (handle_delete_workflow api_client args) (delete_completed api_client i)
        \<and> responds (handle_activate_workflow env api_client args)
            (activate_completed api_client i)
        \<and> responds (handle_deactivate_workflow api_client args)
            (deactivate_completed api_client i))
   \<and> (arg_id args = Some i \<and> i \<noteq> [] \<and> arg_workflow args = Some raw \<longrightarrow>
        responds (handle_update_workflow env api_client args)
          (update_completed env api_client i raw))
   \<and> (\<not> truthy (arg_id args) \<longrightarrow>
        faults_before_call (handle_get_workflow env api_client args)
        \<and> faults_before_call (handle_update_workflow env api_client args)
        \<and> faults_before_call (handle_delete_workflow api_client args)
        \<and> faults_before_call (handle_activate_workflow env api_client args)
        \<and> faults_before_call (handle_deactivate_workflow api_client args))
   \<and> (arg_workflow args = None \<longrightarrow>
        faults_before_call (handle_update_workflow env api_client args))"
proof (intro conjI impI)
  show "responds (handle_list_workflows env api_client args) (list_completed api_client args)"
    by (rule list_responds)
  show "responds (handle_create_workflow env api_client args)
       (create_completed env api_client args)"
    by (rule create_responds)
next
  assume a: "arg_id args = Some i \<and> i \<noteq> []"
  from a show "responds (handle_get_workflow env api_client args) (get_completed api_client i)"
    by (simp add: get_responds)
  from a show "responds (handle_delete_workflow api_client args)
      (delete_completed api_client i)"
    by (simp add: delete_responds)
  from a show "responds (handle_activate_workflow env api_client args)
      (activate_completed api_client i)"
    by (simp add: activate_responds)
  from a show "responds (handle_deactivate_workflow api_client args)
      (deactivate_completed api_client i)"
    by (simp add: deactivate_responds)
next
  assume "arg_id args = Some i \<and> i \<noteq> [] \<and> arg_workflow args = Some raw"
  then show "responds (handle_update_workflow env api_client args)
      (update_completed env api_client i raw)"
    by (simp add: update_responds)
next
  assume a: "\<not> truthy (arg_id args)"
  from a show "faults_before_call (handle_get_workflow env api_client args)"
    by (simp add: missing_id_faults)
  from a show "faults_before_call (handle_update_workflow env api_client args)"
    by (simp add: missing_id_faults)
  from a show "faults_before_call (handle_delete_workflow api_client args)"
    by (simp add: missing_id_faults)
  from a show "faults_before_call (handle_activate_workflow env api_client args)"
    by (simp add: missing_id_faults)
  from a show "faults_before_call (handle_deactivate_workflow api_client args)"
    by (simp add: missing_id_faults)
next
  assume "arg_workflow args = None"
  then show "faults_before_call (handle_update_workflow env api_client args)"
    by (rule missing_workflow_faults)
qed

text \<open>
  The handlers on the example server, with the id \<^verbatim>\<open>404\<close> that it does not know, and
  with the id or the workflow missing.
\<close>

theorem handlers_return_one_response_witness:
  "responds
     (handle_list_workflows (example_env ''concise'') example_client
        (example_args (Some ''404'') (Some [\<lparr>ntype = ''set''\<rparr>]))) True
   \<and> responds
       (handle_create_workflow (example_env ''concise'') example_client
          (example_args (Some ''404'') (Some [\<lparr>ntype = ''set''\<rparr>]))) True
   \<and> responds
       (handle_get_workflow (example_env ''concise'') example_client
          (example_args (Some ''404'') (Some [\<lparr>ntype = ''set''\<rparr>]))) False
   \<and> responds
       (handle_delete_workflow example_client
          (example_args (Some ''404'') (Some [\<lparr>ntype = ''set''\<rparr>]))) False
   \<and> responds
       (handle_activate_workflow (example_env ''concise'') example_client
          (example_args (Some ''404'') (Some [\<lparr>ntype = ''set''\<rparr>]))) False
   \<and> responds
       (handle_deactivate_workflow example_client
          (example_args (Some ''404'') (Some [\<lparr>ntype = ''set''\<rparr>]))) True
   \<and> responds
       (handle_update_workflow (example_env ''concise'') example_client
          (example_args (Some ''404'') (Some [\<lparr>ntype = ''set''\<rparr>]))) True
   \<and> faults_before_call
       (handle_get_workflow (example_env ''concise'') example_client (example_args None None))
   \<and> faults_before_call
       (handle_update_workflow (example_env ''concise'') example_client
          (example_args None None))
   \<and> faults_before_call
       (handle_delete_workflow example_client (example_args (Some []) None))
   \<and> faults_before_call
       (handle_activate_workflow (example_env ''concise'') example_client
          (example_args None None))
   \<and> faults_before_call
       (handle_deactivate_workflow example_client (example_args None None))
   \<and> faults_before_call
       (handle_update_workflow (example_env ''concise'') example_client
          (example_args (Some ''1'') None))"
  using handlers_return_one_response
    [where env = "example_env ''concise''" and api_client = example_client
       and args = "example_args (Some ''404'') (Some [\<lparr>ntype = ''set''\<rparr>])"
       and i = "''404''" and raw = "[\<lparr>ntype = ''set''\<rparr>]"]
    handlers_return_one_response
    [where env = "example_env ''concise''" and api_client = example_client
       and args = "example_args None None" and i = "''1''" and raw = "[]"]
    handlers_return_one_response
    [where env = "example_env ''concise''" and api_client = example_client
       and args = "example_args (Some []) None" and i = "''1''" and raw = "[]"]
    handlers_return_one_response
    [where env = "example_env ''concise''" and api_client = example_client
       and args = "example_args (Some ''1'') None" and i = "''1''" and raw = "[]"]
  by (simp add: example_env_def example_args_def example_client_def
      example_parse_create_input_def example_parse_workflow_def example_validator_def
      list_completed_def create_completed_def get_completed_def update_completed_def
      delete_completed_def activate_completed_def deactivate_completed_def)

end
